theory Spec2Isabelle
  imports Complex_Main
begin

section \<open>Values, errors and array indexing\<close>

text \<open>
  The program is a single Python module, \<^verbatim>\<open>nucleosynthesis.py\<close>. A nuclide is the numpy
  array \<^verbatim>\<open>np.array([Z,N])\<close>; it is modelled as a pair of integers. Floating-point numbers
  are modelled as real numbers, \<^verbatim>\<open>np.pi\<close> as \<open>pi\<close> and \<^verbatim>\<open>np.log(2)\<close> as \<open>ln 2\<close>; the
  only non-finite value the program builds, \<^verbatim>\<open>math.inf\<close>, is kept as a value of its own.
\<close>

type_synonym atom = "int \<times> int"

datatype error = IndexError | TypeError | NameError

datatype flt = Flt real | PInf

definition ebind :: "error + 'a \<Rightarrow> ('a \<Rightarrow> error + 'b) \<Rightarrow> error + 'b" where
  "ebind m f = (case m of Inl e \<Rightarrow> Inl e | Inr x \<Rightarrow> f x)"

text \<open>
  Indexing one axis of a numpy array of length \<open>len\<close>: a negative index counts from the
  end, anything else out of range raises \<^verbatim>\<open>IndexError\<close>.
\<close>

definition np_index :: "nat \<Rightarrow> int \<Rightarrow> error + nat" where
  "np_index len i =
     (if 0 \<le> i \<and> i < int len then Inr (nat i)
      else if - int len \<le> i \<and> i < 0 then Inr (nat (i + int len))
      else Inl IndexError)"

text \<open>\<^verbatim>\<open>tbl[Z,N]\<close> on a two-dimensional array.\<close>

definition get2 :: "'a list list \<Rightarrow> int \<Rightarrow> int \<Rightarrow> error + 'a" where
  "get2 tbl Z N =
     ebind (np_index (length tbl) Z) (\<lambda>z.
     ebind (np_index (length (tbl ! z)) N) (\<lambda>n.
     Inr (tbl ! z ! n)))"

text \<open>\<^verbatim>\<open>tbl[Z,N] = v\<close> on a two-dimensional array.\<close>

definition set2 :: "'a list list \<Rightarrow> int \<Rightarrow> int \<Rightarrow> 'a \<Rightarrow> error + 'a list list" where
  "set2 tbl Z N v =
     ebind (np_index (length tbl) Z) (\<lambda>z.
     ebind (np_index (length (tbl ! z)) N) (\<lambda>n.
     Inr (tbl[z := (tbl ! z)[n := v]])))"

text \<open>The 6 x 7 grid of the nuclide chart: \<open>Z\<close> in 0..5 and \<open>N\<close> in 0..6.\<close>

definition in_grid :: "atom \<Rightarrow> bool" where
  "in_grid a = (0 \<le> fst a \<and> fst a \<le> 5 \<and> 0 \<le> snd a \<and> snd a \<le> 6)"


section \<open>The nuclide tables\<close>

definition STEP :: real where "STEP = 119 / 1000"
definition SECOND :: real where "SECOND = 1 / STEP"
definition MILLISECOND :: real where "MILLISECOND = SECOND * (1 / 1000)"
definition MINUTE :: real where "MINUTE = 60 * SECOND"
definition DAY :: real where "DAY = 86400 * SECOND"
definition YEAR :: real where "YEAR = 31540000 * SECOND"

text \<open>Rules: 0 = stable, 1 = beta+, 2 = beta-, 3 = proton, 4 = neutron, 5 = alpha.\<close>

definition Rules :: "int list list" where
  "Rules =
    [[0,0,2,4,4,4,4],
     [1,0,0,4,2,4,2],
     [3,3,3,0,0,2,2],
     [3,3,3,1,5,0,2],
     [3,3,3,1,3,0,0],
     [3,3,3,1,1,1,0]]"

text \<open>Atomic radii: \<^verbatim>\<open>np.ones(7)*r\<close> per row, then \<^verbatim>\<open>Radius *= 1e-12\<close>.\<close>

definition Radius :: "real list list" where
  "Radius = map (\<lambda>r. map (\<lambda>x. x * (1 / 10 ^ 12)) (replicate 7 (1 * r)))
              [53, 31, 167, 112, 87, 67]"

text \<open>Half lives as the literal table has them; \<^verbatim>\<open>math.inf\<close> stands for a stable isotope.\<close>

definition Thalf_literal :: "flt list list" where
  "Thalf_literal =
    [[PInf, PInf, Flt (123 / 10 * YEAR), Flt 0, Flt 0, Flt 0, Flt 0],
     [Flt 0, PInf, PInf, Flt 0, Flt (8067 / 10 * MILLISECOND), Flt 0, Flt (119 * MILLISECOND)],
     [Flt 0, Flt 0, Flt 0, PInf, PInf, Flt (839 * MILLISECOND), Flt (1783 / 10 * MILLISECOND)],
     [Flt 0, Flt 0, Flt 0, Flt (532 * DAY), Flt 0, PInf, Flt (1500000 * YEAR)],
     [Flt 0, Flt 0, Flt 0, Flt 0, Flt (770 * MILLISECOND), Flt 0, PInf],
     [Flt 0, Flt 0, Flt 0, Flt (1265 / 10 * MILLISECOND), Flt (192 / 10 * SECOND),
      Flt (20 * MINUTE), PInf]]"

text \<open>
  \<^verbatim>\<open>Thalf = 1/Thalf\<close>, elementwise on a float array: \<open>1/inf\<close> is \<open>0\<close>, and numpy
  gives \<open>inf\<close> for \<open>1/0.0\<close> (with a warning, not an exception).
\<close>

fun np_recip :: "flt \<Rightarrow> flt" where
  "np_recip PInf = Flt 0"
| "np_recip (Flt x) = (if x = 0 then PInf else Flt (1 / x))"

definition Thalf :: "flt list list" where
  "Thalf = map (map np_recip) Thalf_literal"

definition Nt :: nat where "Nt = 1000"

definition Area :: real where
  "Area = 20 * pi * (Radius ! 5 ! 0) ^ 2"

definition onedArea :: real where
  "onedArea = 1 / Area"

definition NHydrogen :: real where "NHydrogen = 1000000"


section \<open>The decay and fusion resolvers\<close>

text \<open>
  \<^verbatim>\<open>decay_product(Z,N)\<close>: the rule is looked up in \<open>Rules\<close> (which can raise), then the
  \<^verbatim>\<open>if/elif\<close> chain picks the product; a rule code outside 0..5 falls off the end of
  the function, which returns \<^verbatim>\<open>None\<close>.
\<close>

definition decay_product :: "int \<Rightarrow> int \<Rightarrow> error + atom option" where
  "decay_product Z N =
     ebind (get2 Rules Z N) (\<lambda>rule.
       Inr (if rule = 0 then Some (Z, N)
            else if rule = 1 then Some (Z - 1, N + 1)
            else if rule = 2 then Some (Z + 1, N - 1)
            else if rule = 3 then Some (Z - 1, N)
            else if rule = 4 then Some (Z, N - 1)
            else if rule = 5 then Some (Z - 2, N - 2)
            else None))"

definition fusion_product :: "atom \<Rightarrow> atom \<Rightarrow> atom" where
  "fusion_product atom1 atom2 =
     (if fst atom1 + fst atom2 + 1 > 5 then atom1
      else if snd atom1 + snd atom2 > 6 then atom1
      else (fst atom1 + fst atom2 + 1, snd atom1 + snd atom2))"

text \<open>The caller's test \<^verbatim>\<open>(prod == atom1).all()\<close>: the product is the no-reaction sentinel.\<close>

definition no_fusion :: "atom \<Rightarrow> atom \<Rightarrow> bool" where
  "no_fusion prd atom1 = (fst prd = fst atom1 \<and> snd prd = snd atom1)"

text \<open>
  The decay rules as the specification names them, the rule a code of the table stands
  for, and the transformation the specification's table gives for each rule.
\<close>

datatype rule = Stable | BetaPlus | BetaMinus | ProtonEmission | NeutronEmission | AlphaDecay

definition rule_of_code :: "int \<Rightarrow> rule option" where
  "rule_of_code c =
     (if c = 0 then Some Stable else if c = 1 then Some BetaPlus
      else if c = 2 then Some BetaMinus else if c = 3 then Some ProtonEmission
      else if c = 4 then Some NeutronEmission else if c = 5 then Some AlphaDecay
      else None)"

fun spec_transformation :: "rule \<Rightarrow> atom \<Rightarrow> atom" where
  "spec_transformation Stable (Z, N) = (Z, N)"
| "spec_transformation BetaPlus (Z, N) = (Z - 1, N + 1)"
| "spec_transformation BetaMinus (Z, N) = (Z + 1, N - 1)"
| "spec_transformation ProtonEmission (Z, N) = (Z - 1, N)"
| "spec_transformation NeutronEmission (Z, N) = (Z, N - 1)"
| "spec_transformation AlphaDecay (Z, N) = (Z - 2, N - 2)"

text \<open>The rule of a grid cell, read from \<open>Rules\<close>.\<close>

definition rule_at :: "atom \<Rightarrow> rule option" where
  "rule_at a = (case get2 Rules (fst a) (snd a) of Inl e \<Rightarrow> None | Inr c \<Rightarrow> rule_of_code c)"


section \<open>The population simulator\<close>

type_synonym grid = "real list list"

text \<open>\<^verbatim>\<open>tbl[Z,N] += v\<close> and \<^verbatim>\<open>tbl[Z,N] -= v\<close>: read the cell, write the new value back.\<close>

definition iadd2 :: "grid \<Rightarrow> int \<Rightarrow> int \<Rightarrow> real \<Rightarrow> error + grid" where
  "iadd2 tbl Z N v = ebind (get2 tbl Z N) (\<lambda>x. set2 tbl Z N (x + v))"

definition isub2 :: "grid \<Rightarrow> int \<Rightarrow> int \<Rightarrow> real \<Rightarrow> error + grid" where
  "isub2 tbl Z N v = ebind (get2 tbl Z N) (\<lambda>x. set2 tbl Z N (x - v))"

text \<open>
  \<^verbatim>\<open>ii = np.where(pop[t] != 0)\<close> is a tuple of two index arrays, the row and the column
  of every nonzero cell in row-major order. It is modelled as the list of the pairs
  \<^verbatim>\<open>(ii[0][k], ii[1][k])\<close>; \<^verbatim>\<open>np.shape(ii)[1]\<close> is the length of that list, and
  \<^verbatim>\<open>len(ii)\<close>, the length of the tuple, is 2 whatever the population.
\<close>

fun where_row :: "int \<Rightarrow> int \<Rightarrow> real list \<Rightarrow> atom list" where
  "where_row z n [] = []"
| "where_row z n (x # xs) =
     (if x \<noteq> 0 then (z, n) # where_row z (n + 1) xs else where_row z (n + 1) xs)"

fun where_rows :: "int \<Rightarrow> grid \<Rightarrow> atom list" where
  "where_rows z [] = []"
| "where_rows z (r # rs) = where_row z 0 r @ where_rows (z + 1) rs"

definition np_where :: "grid \<Rightarrow> atom list" where
  "np_where pop_t = where_rows 0 pop_t"

definition len_ii :: "atom list \<Rightarrow> nat" where
  "len_ii ii = 2"

text \<open>\<^verbatim>\<open>np.array([ii[0][j], ii[1][j]])\<close> for \<open>j \<ge> 0\<close>.\<close>

definition ii_at :: "atom list \<Rightarrow> nat \<Rightarrow> error + atom" where
  "ii_at ii j = (if j < length ii then Inr (ii ! j) else Inl IndexError)"

text \<open>Lines 116 to 127: the fusion of \<open>atom1\<close> with \<open>atom2\<close>.\<close>

definition fusion_update :: "grid \<Rightarrow> grid \<Rightarrow> atom \<Rightarrow> atom \<Rightarrow> error + grid" where
  "fusion_update pop_t pop_t1 atom1 atom2 =
     (let prd = fusion_product atom1 atom2 in
      if no_fusion prd atom1 then Inr pop_t1
      else
        ebind (get2 pop_t (fst atom1) (snd atom1)) (\<lambda>p1.
        ebind (get2 pop_t (fst atom2) (snd atom2)) (\<lambda>p2.
        ebind (get2 Radius (fst atom1) (snd atom1)) (\<lambda>r1.
        ebind (get2 Radius (fst atom2) (snd atom2)) (\<lambda>r2.
        let diff = min p1 p2 * pi * (r1 + r2) ^ 2 * onedArea in
        ebind (iadd2 pop_t1 (fst prd) (snd prd) (diff / 2)) (\<lambda>q1.
        ebind (isub2 q1 (fst atom1) (snd atom1) (diff / 2)) (\<lambda>q2.
        isub2 q2 (fst atom2) (snd atom2) (diff / 2))))))))"

text \<open>
  The inner loop \<^verbatim>\<open>for j in range(len(ii))\<close>. The variable \<open>atom2\<close> outlives the loop
  (the decay pass reads it), so the loop state is the row \<open>pop[t+1]\<close> and \<open>atom2\<close>.
\<close>

fun inner_loop ::
  "grid \<Rightarrow> atom list \<Rightarrow> atom \<Rightarrow> nat list \<Rightarrow> grid \<times> atom option \<Rightarrow> error + grid \<times> atom option"
where
  "inner_loop pop_t ii atom1 [] st = Inr st"
| "inner_loop pop_t ii atom1 (j # js) st =
     ebind (ii_at ii j) (\<lambda>atom2.
     ebind (fusion_update pop_t (fst st) atom1 atom2) (\<lambda>q.
     inner_loop pop_t ii atom1 js (q, Some atom2)))"

text \<open>
  The test \<^verbatim>\<open>Thalf[atom1[0],atom1[1]]*np.log(2) > 1.\<close> on an inverted half life: an
  infinite one times \<open>ln 2\<close> is infinite, and greater than 1.
\<close>

definition complete_decay :: "flt \<Rightarrow> bool" where
  "complete_decay h = (case h of PInf \<Rightarrow> True | Flt r \<Rightarrow> r * ln 2 > 1)"

text \<open>
  Lines 129 to 142: the decay of \<open>atom1\<close>. In the branch of the partial decay the
  inverted half life is finite.
\<close>

definition decay_update :: "grid \<Rightarrow> grid \<Rightarrow> atom \<Rightarrow> atom option \<Rightarrow> error + grid" where
  "decay_update pop_t pop_t1 atom1 atom2 =
     ebind (decay_product (fst atom1) (snd atom1)) (\<lambda>prd.
     ebind (get2 Thalf (fst atom1) (snd atom1)) (\<lambda>h.
     if complete_decay h then
       (case prd of None \<Rightarrow> Inl TypeError | Some p \<Rightarrow>
          ebind (get2 pop_t (fst atom1) (snd atom1)) (\<lambda>x.
          ebind (iadd2 pop_t1 (fst p) (snd p) x) (\<lambda>q.
          set2 q (fst atom1) (snd atom1) 0)))
     else
       ebind (get2 pop_t (fst atom1) (snd atom1)) (\<lambda>x.
       let diff = x * (case h of PInf \<Rightarrow> 0 | Flt r \<Rightarrow> r) * ln 2 in
       (case prd of None \<Rightarrow> Inl TypeError | Some p \<Rightarrow>
          ebind (iadd2 pop_t1 (fst p) (snd p) diff) (\<lambda>q.
          (case atom2 of None \<Rightarrow> Inl NameError | Some a2 \<Rightarrow>
             isub2 q (fst atom1) (fst a2) diff))))))"

text \<open>The loop over the active cells: \<^verbatim>\<open>for i in range(np.shape(ii)[1])\<close>.\<close>

fun outer_loop ::
  "grid \<Rightarrow> atom list \<Rightarrow> atom list \<Rightarrow> grid \<times> atom option \<Rightarrow> error + grid \<times> atom option"
where
  "outer_loop pop_t ii [] st = Inr st"
| "outer_loop pop_t ii (atom1 # rest) st =
     ebind (inner_loop pop_t ii atom1 [0..<len_ii ii] st) (\<lambda>st1.
     ebind (decay_update pop_t (fst st1) atom1 (snd st1)) (\<lambda>q.
     outer_loop pop_t ii rest (q, snd st1)))"

text \<open>
  One timestep: \<open>pop[t+1]\<close> starts as a copy of \<open>pop[t]\<close>. The variable \<open>atom2\<close> is
  assigned by the inner loop before the decay pass of the same cell reads it, so the
  value it has when the step starts is never read; it starts unbound here.
\<close>

definition step :: "grid \<Rightarrow> error + grid" where
  "step pop_t =
     (let ii = np_where pop_t in
      ebind (outer_loop pop_t ii ii (pop_t, None)) (\<lambda>st. Inr (fst st)))"

text \<open>The row \<open>pop[t]\<close> of a run that starts from \<open>pop[0] = p\<close>.\<close>

fun simulate :: "nat \<Rightarrow> grid \<Rightarrow> error + grid" where
  "simulate 0 p = Inr p"
| "simulate (Suc t) p = ebind (simulate t p) step"

text \<open>\<^verbatim>\<open>pop = np.zeros([Nt+1,6,7])\<close>, and the two seeds of row 0.\<close>

definition zeros :: grid where
  "zeros = replicate 6 (replicate 7 0)"

definition pop0 :: grid where
  "pop0 = (let p = zeros[0 := (zeros ! 0)[0 := NHydrogen]] in p[0 := (p ! 0)[1 := 1000]])"

text \<open>The total of a row, each cell weighted by \<open>Z + N\<close>.\<close>

fun mass_row :: "int \<Rightarrow> int \<Rightarrow> real list \<Rightarrow> real" where
  "mass_row z n [] = 0"
| "mass_row z n (x # xs) = x * real_of_int (z + n) + mass_row z (n + 1) xs"

fun mass_rows :: "int \<Rightarrow> grid \<Rightarrow> real" where
  "mass_rows z [] = 0"
| "mass_rows z (r # rs) = mass_row z 0 r + mass_rows (z + 1) rs"

definition mass :: "grid \<Rightarrow> real" where
  "mass p = mass_rows 0 p"


section \<open>Rows of the population array used below\<close>

text \<open>
  Rows 1 to 4 of the program's own run, as exact fractions; they are shown below to be
  what \<open>simulate\<close> computes from \<open>pop0\<close>.
\<close>

definition row1 :: grid where
  "row1 =
    [[3926638200 / 4489, 3365400 / 4489, 0, 0, 0, 0, 0],
     [280900000 / 4489, 561800 / 4489, 280900 / 4489, 0, 0, 0, 0],
     [0, 0, 0, 0, 0, 0, 0],
     [0, 0, 0, 0, 0, 0, 0],
     [0, 0, 0, 0, 0, 0, 0],
     [0, 0, 0, 0, 0, 0, 0]]"

definition row2 :: grid where
  "row2 =
    [[15369103445040 / 20151121, 1271543708320 / 20151121, 0, 0, 0, 0, 0],
     [0, 4214398880 / 20151121, 2107199440 / 20151121, 0, 0, 0, 0],
     [49550760000 / 20151121, 692758080 / 20151121, 148652280 / 20151121,
      49550760 / 20151121, 0, 0, 0],
     [0, 0, 0, 0, 0, 0, 0],
     [0, 0, 0, 0, 0, 0, 0],
     [0, 0, 0, 0, 0, 0, 0]]"

definition row3 :: grid where
  "row3 =
    [[59581040181528064 / 90458382169, 4217103583481280 / 90458382169, 0, 0, 0, 0, 0],
     [4539614519351736 / 90458382169, 734894643002752 / 90458382169,
      366559726075736 / 90458382169, 0, 0, 0, 0],
     [0, 0, 0, 474230503656 / 90458382169, 0, 0, 0],
     [59956419600000 / 90458382169, 60794656876800 / 90458382169,
      1018106535600 / 90458382169, 239825678400 / 90458382169,
      59956419600 / 90458382169, 0, 0],
     [0, 0, 0, 0, 0, 0, 0],
     [0, 0, 0, 0, 0, 0, 0]]"

definition row4 :: grid where
  "row4 =
    [[1152693753237452242816 / 2030338387783205, 167743596730493048904 / 2030338387783205,
      0, 0, 0, 0, 0],
     [0, 27044200077938829632 / 2030338387783205, 13505089399809675976 / 2030338387783205,
      0, 0, 0, 0],
     [5349661843990231152 / 2030338387783205, 5732198509358692224 / 2030338387783205,
      994334154718768416 / 2030338387783205, 328211592959120472 / 2030338387783205,
      283127537 / 41249022269064000 * ln 2, 0, 0],
     [- (283127537 / 41249022269064000 * ln 2), 0, 0, 1323933675039360 / 406067677556641,
      0, 0, 0],
     [40807838090250000 / 406067677556641, 82186201427022000 / 406067677556641,
      42071312097564750 / 406067677556641, 856180113153750 / 406067677556641,
      204039190451250 / 406067677556641, 40807838090250 / 406067677556641, 0],
     [0, 0, 0, 0, 0, 0, 0]]"

text \<open>A row whose whole population is \<open>x\<close> atoms in the one cell \<open>(Z, N)\<close> of the grid.\<close>

definition single :: "nat \<Rightarrow> nat \<Rightarrow> real \<Rightarrow> grid" where
  "single z n x = zeros[z := (zeros ! z)[n := x]]"

text \<open>
  A row with two active cells, neither of which can fuse with anything: 253 atoms in
  \<open>(5, 3)\<close>, which decays by beta+ to \<open>(4, 4)\<close> with a half life of 126.5 ms, and one
  atom in the stable cell \<open>(5, 6)\<close>.
\<close>

definition decay_row :: grid where
  "decay_row =
    [[0, 0, 0, 0, 0, 0, 0],
     [0, 0, 0, 0, 0, 0, 0],
     [0, 0, 0, 0, 0, 0, 0],
     [0, 0, 0, 0, 0, 0, 0],
     [0, 0, 0, 0, 0, 0, 0],
     [0, 0, 0, 253, 0, 0, 1]]"

section \<open>Properties of the resolvers\<close>

lemma in_grid_cases:
  assumes "in_grid (Z, N)"
  shows "Z \<in> {0, 1, 2, 3, 4, 5} \<and> N \<in> {0, 1, 2, 3, 4, 5, 6}"
proof -
  from assms have "0 \<le> Z" "Z \<le> 5" "0 \<le> N" "N \<le> 6"
    by (simp_all add: in_grid_def)
  then show ?thesis by (simp, presburger)
qed

lemmas table_simps =
  get2_def ebind_def np_index_def Rules_def rule_at_def rule_of_code_def decay_product_def

text \<open>What \<open>decay_product\<close> returns on every cell of the grid, read off the table.\<close>

lemma decay_product_grid:
  assumes "in_grid (Z, N)"
  shows "\<exists>r. rule_at (Z, N) = Some r
           \<and> decay_product Z N = Inr (Some (spec_transformation r (Z, N)))
           \<and> in_grid (spec_transformation r (Z, N))"
proof -
  from in_grid_cases [OF assms]
  have Z: "Z = 0 \<or> Z = 1 \<or> Z = 2 \<or> Z = 3 \<or> Z = 4 \<or> Z = 5"
    and N: "N = 0 \<or> N = 1 \<or> N = 2 \<or> N = 3 \<or> N = 4 \<or> N = 5 \<or> N = 6"
    by simp_all
  from Z show ?thesis
  proof (elim disjE)
    assume "Z = 0" with N show ?thesis
      by (elim disjE) (simp_all add: table_simps in_grid_def)
  next
    assume "Z = 1" with N show ?thesis
      by (elim disjE) (simp_all add: table_simps in_grid_def)
  next
    assume "Z = 2" with N show ?thesis
      by (elim disjE) (simp_all add: table_simps in_grid_def)
  next
    assume "Z = 3" with N show ?thesis
      by (elim disjE) (simp_all add: table_simps in_grid_def)
  next
    assume "Z = 4" with N show ?thesis
      by (elim disjE) (simp_all add: table_simps in_grid_def)
  next
    assume "Z = 5" with N show ?thesis
      by (elim disjE) (simp_all add: table_simps in_grid_def)
  qed
qed

text \<open>
  Claim C6. For two nuclides of the grid, \<open>fusion_product\<close> returns
  \<open>(Z1 + Z2 + 1, N1 + N2)\<close> if and only if \<open>Z1 + Z2 + 1 \<le> 5\<close> and \<open>N1 + N2 \<le> 6\<close>, and
  returns \<open>atom1\<close> unchanged otherwise.
\<close>

theorem fusion_product_contract:
  assumes "in_grid atom1" and "in_grid atom2"
  shows "(fusion_product atom1 atom2 = (fst atom1 + fst atom2 + 1, snd atom1 + snd atom2)
            \<longleftrightarrow> fst atom1 + fst atom2 + 1 \<le> 5 \<and> snd atom1 + snd atom2 \<le> 6)
         \<and> (\<not> (fst atom1 + fst atom2 + 1 \<le> 5 \<and> snd atom1 + snd atom2 \<le> 6)
            \<longrightarrow> fusion_product atom1 atom2 = atom1)"
proof -
  from assms(2) have "0 \<le> fst atom2" by (simp add: in_grid_def)
  then have "fst atom1 + fst atom2 + 1 \<noteq> fst atom1" by simp
  then have "atom1 \<noteq> (fst atom1 + fst atom2 + 1, snd atom1 + snd atom2)"
    by (cases atom1) auto
  then show ?thesis
    by (auto simp: fusion_product_def)
qed

theorem fusion_product_contract_witness:
  "in_grid (1, 2) \<and> in_grid (2, 3)
   \<and> fusion_product (1, 2) (2, 3) = (4, 5)
   \<and> in_grid (5, 0) \<and> fusion_product (5, 0) (5, 0) = (5, 0)"
  using fusion_product_contract [of "(1, 2)" "(2, 3)"]
    fusion_product_contract [of "(5, 0)" "(5, 0)"]
  by (simp add: in_grid_def)

text \<open>
  Claim C7. On every cell of the grid \<open>decay_product\<close> returns the transformation that
  the specification gives for the rule of the cell; on \<open>(1, 0)\<close>, whose rule is beta+, it
  returns \<open>(0, 1)\<close>.
\<close>

theorem decay_product_by_rule:
  "(in_grid (Z, N) \<longrightarrow>
      (\<exists>r. rule_at (Z, N) = Some r
         \<and> decay_product Z N = Inr (Some (spec_transformation r (Z, N)))))
   \<and> rule_at (1, 0) = Some BetaPlus \<and> decay_product 1 0 = Inr (Some (0, 1))"
proof (intro conjI impI)
  assume "in_grid (Z, N)"
  from decay_product_grid [OF this]
  show "\<exists>r. rule_at (Z, N) = Some r
          \<and> decay_product Z N = Inr (Some (spec_transformation r (Z, N)))"
    by blast
next
  show "rule_at (1, 0) = Some BetaPlus" by (simp add: table_simps)
next
  show "decay_product 1 0 = Inr (Some (0, 1))" by (simp add: table_simps)
qed

theorem decay_product_by_rule_witness:
  "in_grid (3, 4) \<and> rule_at (3, 4) = Some AlphaDecay
   \<and> decay_product 3 4 = Inr (Some (1, 2))"
  using decay_product_by_rule [of 3 4]
  by (simp add: in_grid_def table_simps)

text \<open>
  Claim C8. With the fixed rule table the decay product of every cell of the grid is a
  cell of the grid again, so that an array indexed by it is read and written in range,
  without an error and without the wrap-around of a negative index.
\<close>

theorem decay_product_in_grid:
  assumes "in_grid (Z, N)"
  shows "\<exists>Z' N'. decay_product Z N = Inr (Some (Z', N')) \<and> in_grid (Z', N')
           \<and> np_index 6 Z' = Inr (nat Z') \<and> np_index 7 N' = Inr (nat N')"
proof -
  from decay_product_grid [OF assms] obtain r where
    r: "decay_product Z N = Inr (Some (spec_transformation r (Z, N)))"
       "in_grid (spec_transformation r (Z, N))"
    by blast
  obtain Z' N' where p: "spec_transformation r (Z, N) = (Z', N')"
    by (cases "spec_transformation r (Z, N)")
  with r have "in_grid (Z', N')" by simp
  then have "np_index 6 Z' = Inr (nat Z')" "np_index 7 N' = Inr (nat N')"
    by (simp_all add: in_grid_def np_index_def)
  with r p show ?thesis by auto
qed

theorem decay_product_in_grid_witness:
  "in_grid (0, 2) \<and> decay_product 0 2 = Inr (Some (1, 1)) \<and> in_grid (1, 1)
   \<and> np_index 6 1 = Inr (nat 1) \<and> np_index 7 1 = Inr (nat 1)"
  using decay_product_in_grid [of 0 2]
  by (simp add: in_grid_def table_simps)

text \<open>
  Claim C10. For two nuclides of the grid, the caller takes the fusion of \<open>(a, b)\<close> as a
  reaction exactly when it takes the fusion of \<open>(b, a)\<close> as one, and then both orders
  give the same product.
\<close>

theorem fusion_product_symmetric:
  assumes "in_grid a" and "in_grid b"
  shows "(no_fusion (fusion_product a b) a \<longleftrightarrow> no_fusion (fusion_product b a) b)
         \<and> (\<not> no_fusion (fusion_product a b) a
            \<longrightarrow> fusion_product a b = fusion_product b a)"
proof -
  from assms have "0 \<le> fst a" "0 \<le> fst b" by (simp_all add: in_grid_def)
  then show ?thesis
    by (auto simp: fusion_product_def no_fusion_def add.commute)
qed

theorem fusion_product_symmetric_witness:
  "in_grid (0, 1) \<and> in_grid (2, 3)
   \<and> \<not> no_fusion (fusion_product (0, 1) (2, 3)) (0, 1)
   \<and> \<not> no_fusion (fusion_product (2, 3) (0, 1)) (2, 3)
   \<and> fusion_product (0, 1) (2, 3) = (3, 4) \<and> fusion_product (2, 3) (0, 1) = (3, 4)"
  using fusion_product_symmetric [of "(0, 1)" "(2, 3)"]
  by (simp add: in_grid_def fusion_product_def no_fusion_def)


section \<open>The inverted half lives\<close>

text \<open>
  Claim C9. The claim is that every stable cell holds 0 in the inverted table. The cell
  \<open>(4, 5)\<close> is stable in \<open>Rules\<close>, but its half life is written as 0 and not as
  \<^verbatim>\<open>math.inf\<close>, so its inverted half life is infinite.
\<close>

theorem stable_cell_with_infinite_rate:
  "rule_at (4, 5) = Some Stable \<and> get2 Thalf_literal 4 5 = Inr (Flt 0)
   \<and> get2 Thalf 4 5 = Inr PInf"
  by (simp add: table_simps Thalf_def Thalf_literal_def)


section \<open>Evaluating the simulator\<close>

text \<open>
  In the transferred amount of a fusion, \<open>pi\<close> cancels against the \<open>pi\<close> of \<open>onedArea\<close>;
  \<open>fusion_update_eq\<close> is \<open>fusion_update\<close> with that done.
\<close>

lemma range_len_ii: "[0..<len_ii ii] = [0, 1]"
  by (simp add: len_ii_def numeral_2_eq_2 upt_rec)

lemma pop0_rows:
  "pop0 = [[1000000, 1000, 0, 0, 0, 0, 0],
           [0, 0, 0, 0, 0, 0, 0],
           [0, 0, 0, 0, 0, 0, 0],
           [0, 0, 0, 0, 0, 0, 0],
           [0, 0, 0, 0, 0, 0, 0],
           [0, 0, 0, 0, 0, 0, 0]]"
  by (simp add: pop0_def zeros_def NHydrogen_def numeral_nat)

lemma Radius_rows:
  "Radius = map (\<lambda>r. replicate 7 (r / 10 ^ 12)) [53, 31, 167, 112, 87, 67]"
  by (simp add: Radius_def)

lemma onedArea_eq: "onedArea = 10 ^ 24 / (89780 * pi)"
  by (simp add: onedArea_def Area_def Radius_def numeral_nat power2_eq_square)

lemma transfer_eq: "m * pi * r * onedArea = m * (r * (10 ^ 24 / 89780))"
  by (simp add: onedArea_eq)

lemma fusion_update_eq:
  "fusion_update pop_t pop_t1 atom1 atom2 =
     (let prd = fusion_product atom1 atom2 in
      if no_fusion prd atom1 then Inr pop_t1
      else
        ebind (get2 pop_t (fst atom1) (snd atom1)) (\<lambda>p1.
        ebind (get2 pop_t (fst atom2) (snd atom2)) (\<lambda>p2.
        ebind (get2 Radius (fst atom1) (snd atom1)) (\<lambda>r1.
        ebind (get2 Radius (fst atom2) (snd atom2)) (\<lambda>r2.
        let diff = min p1 p2 * ((r1 + r2) ^ 2 * (10 ^ 24 / 89780)) in
        ebind (iadd2 pop_t1 (fst prd) (snd prd) (diff / 2)) (\<lambda>q1.
        ebind (isub2 q1 (fst atom1) (snd atom1) (diff / 2)) (\<lambda>q2.
        isub2 q2 (fst atom2) (snd atom2) (diff / 2))))))))"
  unfolding fusion_update_def transfer_eq ..

lemma slow_decay: "0 \<le> r \<Longrightarrow> r \<le> 1 \<Longrightarrow> complete_decay (Flt r) = False"
proof -
  assume a: "0 \<le> r" "r \<le> 1"
  have "r * ln 2 \<le> 1 * ln (2::real)" using a by (intro mult_right_mono) simp_all
  also have "\<dots> < 1" using ln_2_less_1 by simp
  finally show ?thesis by (simp add: complete_decay_def)
qed

lemma fast_decay: "complete_decay PInf = True"
  by (simp add: complete_decay_def)

lemmas eval_simps =
  step_def np_where_def range_len_ii ii_at_def fusion_update_eq fusion_product_def
  no_fusion_def get2_def set2_def iadd2_def isub2_def ebind_def np_index_def Radius_rows
  decay_update_def decay_product_def Rules_def Thalf_def Thalf_literal_def Let_def
  power2_eq_square STEP_def SECOND_def MILLISECOND_def DAY_def YEAR_def MINUTE_def
  slow_decay fast_decay

lemma step_row0: "step pop0 = Inr row1"
  unfolding pop0_rows row1_def by (simp add: eval_simps)


lemma step_row1: "step row1 = Inr row2"
  unfolding row1_def row2_def by (simp add: eval_simps)

lemma step_row2: "step row2 = Inr row3"
  unfolding row2_def row3_def by (simp add: eval_simps)

lemma step_row3: "step row3 = Inr row4"
  unfolding row3_def row4_def by (simp add: eval_simps)

lemma simulate_pop0:
  "simulate 1 pop0 = Inr row1" "simulate 2 pop0 = Inr row2"
  "simulate 3 pop0 = Inr row3" "simulate 4 pop0 = Inr row4"
  by (simp_all add: eval_nat_numeral ebind_def step_row0 step_row1 step_row2 step_row3)

lemma single_rows: "single 5 6 x = [[0, 0, 0, 0, 0, 0, 0],
     [0, 0, 0, 0, 0, 0, 0],
     [0, 0, 0, 0, 0, 0, 0],
     [0, 0, 0, 0, 0, 0, 0],
     [0, 0, 0, 0, 0, 0, 0],
     [0, 0, 0, 0, 0, 0, x]]"
  "single 5 3 x = [[0, 0, 0, 0, 0, 0, 0],
     [0, 0, 0, 0, 0, 0, 0],
     [0, 0, 0, 0, 0, 0, 0],
     [0, 0, 0, 0, 0, 0, 0],
     [0, 0, 0, 0, 0, 0, 0],
     [0, 0, 0, x, 0, 0, 0]]"
  by (simp_all add: single_def zeros_def numeral_nat)


text \<open>
  The partners \<open>atom2\<close> of the fusion pass are read at the indices 0 and 1 of \<open>ii\<close> only:
  the inner loop sees nothing of \<open>ii\<close> beyond its first two cells.
\<close>

lemma inner_loop_first_two:
  "inner_loop pop_t ii atom1 [0..<len_ii ii] st =
   inner_loop pop_t (take 2 ii) atom1 [0..<len_ii (take 2 ii)] st"
  by (simp add: range_len_ii ii_at_def)

text \<open>A step from a row with exactly one nonzero cell raises: \<open>ii[0][1]\<close> does not exist.\<close>

lemma single_active_fails:
  assumes "np_where p = [a]"
  shows "\<exists>e. step p = Inl e"
proof (cases "fusion_update p p a a")
  case (Inl e)
  then show ?thesis using assms by (simp add: step_def range_len_ii ii_at_def ebind_def)
next
  case (Inr q)
  then show ?thesis using assms by (simp add: step_def range_len_ii ii_at_def ebind_def)
qed



section \<open>The time-stepping loop\<close>

text \<open>
  Claim C1. The claim is that the fusion pass visits every ordered pair of active cells.
  The inner loop runs over \<^verbatim>\<open>range(len(ii))\<close>, that is over the indices 0 and 1, so a
  pair whose second cell is not among the first two active cells is never visited. In
  row 1 of the program's own run the cell \<open>(1, 1)\<close> is active and its fusion with itself
  is accepted, with product \<open>(3, 2)\<close>; applied to row 1 it would put a positive amount
  into \<open>(3, 2)\<close>, but in row 2 that cell is still 0.
\<close>

theorem fusion_pass_skips_pair:
  "simulate 1 pop0 = Inr row1
   \<and> np_where row1 = [(0, 0), (0, 1), (1, 0), (1, 1), (1, 2)]
   \<and> fusion_product (1, 1) (1, 1) = (3, 2)
   \<and> \<not> no_fusion (fusion_product (1, 1) (1, 1)) (1, 1)
   \<and> (case fusion_update row1 row1 (1, 1) (1, 1) of
         Inl e \<Rightarrow> False | Inr q \<Rightarrow> get2 q 3 2 = Inr (53988980 / 20151121))
   \<and> step row1 = Inr row2 \<and> get2 row2 3 2 = Inr 0"
proof -
  have "np_where row1 = [(0, 0), (0, 1), (1, 0), (1, 1), (1, 2)]"
    by (simp add: np_where_def row1_def)
  moreover have "fusion_product (1, 1) (1, 1) = (3, 2)"
    by (simp add: fusion_product_def)
  moreover have "\<not> no_fusion (fusion_product (1, 1) (1, 1)) (1, 1)"
    by (simp add: fusion_product_def no_fusion_def)
  moreover have "case fusion_update row1 row1 (1, 1) (1, 1) of
      Inl e \<Rightarrow> False | Inr q \<Rightarrow> get2 q 3 2 = Inr (53988980 / 20151121)"
    unfolding row1_def by (simp add: eval_simps)
  moreover have "get2 row2 3 2 = Inr 0"
    by (simp add: row2_def get2_def ebind_def np_index_def)
  ultimately show ?thesis
    using simulate_pop0(1) step_row1 by simp
qed

text \<open>
  Claim C2. The claim is that the partial decay of \<open>atom1\<close> subtracts the decayed amount
  from the cell of \<open>atom1\<close>. The code subtracts it from \<^verbatim>\<open>pop[t+1,atom1[0],atom2[0]]\<close>,
  where \<open>atom2\<close> is what the inner loop left, the second active cell. In \<open>decay_row\<close> the
  cell \<open>(5, 3)\<close> decays to \<open>(4, 4)\<close> at the rate \<open>238 / 253 * ln 2\<close>: the 253 atoms of
  \<open>(5, 3)\<close> are all still there after the step, \<open>(4, 4)\<close> has gained \<open>238 * ln 2\<close>, and
  the empty cell \<open>(5, 5)\<close> has been debited instead.
\<close>

theorem partial_decay_debits_other_cell:
  "np_where decay_row = [(5, 3), (5, 6)]
   \<and> decay_product 5 3 = Inr (Some (4, 4))
   \<and> get2 Thalf 5 3 = Inr (Flt (238 / 253))
   \<and> step decay_row =
       Inr [[0, 0, 0, 0, 0, 0, 0],
            [0, 0, 0, 0, 0, 0, 0],
            [0, 0, 0, 0, 0, 0, 0],
            [0, 0, 0, 0, 0, 0, 0],
            [0, 0, 0, 0, 238 * ln 2, 0, 0],
            [0, 0, 0, 253, 0, - (238 * ln 2), 1]]"
proof -
  have "np_where decay_row = [(5, 3), (5, 6)]"
    by (simp add: np_where_def decay_row_def)
  moreover have "decay_product 5 3 = Inr (Some (4, 4))"
    by (simp add: table_simps)
  moreover have "get2 Thalf 5 3 = Inr (Flt (238 / 253))"
    by (simp add: get2_def ebind_def np_index_def Thalf_def Thalf_literal_def
        MILLISECOND_def SECOND_def STEP_def)
  moreover have "step decay_row =
       Inr [[0, 0, 0, 0, 0, 0, 0],
            [0, 0, 0, 0, 0, 0, 0],
            [0, 0, 0, 0, 0, 0, 0],
            [0, 0, 0, 0, 0, 0, 0],
            [0, 0, 0, 0, 238 * ln 2, 0, 0],
            [0, 0, 0, 253, 0, - (238 * ln 2), 1]]"
    unfolding decay_row_def by (simp add: eval_simps)
  ultimately show ?thesis by simp
qed

text \<open>
  Claim C3. The claim is that no population is ever negative. In the program's own run,
  row 4 holds a negative population in the cell \<open>(3, 0)\<close>: in the step from row 3 the
  cell is first set to 0 by its own complete decay, and then the partial decay of
  \<open>(3, 3)\<close> is subtracted from it.
\<close>

theorem negative_population_in_row4:
  "simulate 4 pop0 = Inr row4
   \<and> get2 row4 3 0 = Inr (- (283127537 / 41249022269064000 * ln 2))
   \<and> - (283127537 / 41249022269064000 * ln 2) < (0::real)"
proof -
  have "get2 row4 3 0 = Inr (- (283127537 / 41249022269064000 * ln 2))"
    by (simp add: row4_def get2_def ebind_def np_index_def)
  moreover have "- (283127537 / 41249022269064000 * ln 2) < (0::real)"
    by simp
  ultimately show ?thesis using simulate_pop0(4) by simp
qed

text \<open>
  Claim C4. The claim is that a row whose whole population sits in one stable cell with
  no fusion partner is repeated by every later step. With one atom in the stable cell
  \<open>(5, 6)\<close>, which cannot fuse with itself, the step raises \<^verbatim>\<open>IndexError\<close>: the inner loop
  reads \<^verbatim>\<open>ii[0][1]\<close>, and there is only one active cell.
\<close>

theorem single_stable_cell_step_fails:
  "np_where (single 5 6 1) = [(5, 6)] \<and> rule_at (5, 6) = Some Stable
   \<and> fusion_product (5, 6) (5, 6) = (5, 6)
   \<and> step (single 5 6 1) = Inl IndexError"
  unfolding single_rows by (simp add: eval_simps rule_at_def rule_of_code_def)

text \<open>
  Claim C5. The claim is that with a single active cell, hence no fusion, the weighted
  total of row \<open>t + 1\<close> is that of row \<open>t\<close>. With one atom in \<open>(5, 3)\<close>, which cannot
  fuse with itself and decays by beta+ to \<open>(4, 4)\<close>, a cell of the same \<open>Z + N\<close>, the
  weighted total of the row is 8, but the step raises \<^verbatim>\<open>IndexError\<close> and there is no row
  \<open>t + 1\<close>: the inner loop reads \<^verbatim>\<open>ii[0][1]\<close>, and there is only one active cell.
\<close>

theorem single_beta_cell_step_fails:
  "np_where (single 5 3 1) = [(5, 3)] \<and> rule_at (5, 3) = Some BetaPlus
   \<and> fusion_product (5, 3) (5, 3) = (5, 3)
   \<and> decay_product 5 3 = Inr (Some (4, 4))
   \<and> mass (single 5 3 1) = 8
   \<and> step (single 5 3 1) = Inl IndexError"
  unfolding single_rows by (simp add: eval_simps rule_at_def rule_of_code_def mass_def)

end
